theory Spec2Isabelle
  imports Main
begin

section \<open>The admin dashboard and the login page of the court cause-list front end\<close>

text \<open>
  The development embeds \<^verbatim>\<open>frontend/app/admin/page.tsx\<close> and
  \<^verbatim>\<open>frontend/app/login/page.tsx\<close>. A React component is a record of its
  \<^verbatim>\<open>useState\<close> variables; an event handler is a function from the component's state
  to the new state and the list of HTTP requests it issues. An \<^verbatim>\<open>async\<close> handler
  is cut at its \<^verbatim>\<open>await fetch\<close>: the part before it is the handler itself, the part
  after it is the handler's \<open>_resume\<close> function, which takes the outcome of the request.
\<close>

subsection \<open>Values of the JavaScript run time\<close>

text \<open>A thrown value, with the two properties the handlers read: \<^verbatim>\<open>err.name\<close>, \<^verbatim>\<open>err.message\<close>.\<close>

record js_error =
  name :: string
  message :: string

text \<open>
  The outcome of \<^verbatim>\<open>await fetch(...)\<close> followed by \<^verbatim>\<open>await response.json()\<close>:
  either of them threw, or the response was not \<^verbatim>\<open>ok\<close>, or it was. The payloads are
  typed by the properties the handler reads from \<^verbatim>\<open>data\<close>.
\<close>

datatype ('ok, 'err) reply = Threw js_error | NotOk 'err | Ok 'ok

datatype http_verb = GET | POST

text \<open>
  A request body before serialisation: the object given to \<^verbatim>\<open>JSON.stringify\<close>, or the
  entries of a \<^verbatim>\<open>URLSearchParams\<close>.
\<close>

datatype json = JStr string | JArr "json list" | JObj "(string \<times> json) list"

datatype body = NoBody | JsonBody json | FormBody "(string \<times> string) list"

record request =
  req_method :: http_verb
  url :: string
  headers :: "(string \<times> string) list"
  body :: body

text \<open>\<^verbatim>\<open>`Bearer ${token}`\<close>, where \<^verbatim>\<open>localStorage.getItem\<close> gives \<^verbatim>\<open>null\<close> for a missing key.\<close>

definition bearer :: "string option \<Rightarrow> string" where
  "bearer token = ''Bearer '' @ (case token of None \<Rightarrow> ''null'' | Some t \<Rightarrow> t)"

text \<open>\<^verbatim>\<open>err.message || fallback\<close>: the empty string is falsy.\<close>

definition message_or :: "js_error \<Rightarrow> string \<Rightarrow> string" where
  "message_or err fallback = (if js_error.message err = [] then fallback else js_error.message err)"

text \<open>\<^verbatim>\<open>value || fallback\<close> on a property that may be missing.\<close>

definition field_or :: "string option \<Rightarrow> string \<Rightarrow> string" where
  "field_or v fallback = (case v of None \<Rightarrow> fallback | Some t \<Rightarrow> if t = [] then fallback else t)"

text \<open>A whole number in a template literal is printed in decimal.\<close>

fun string_of_nat :: "nat \<Rightarrow> string" where
  "string_of_nat n =
     (if n < 10 then [''0123456789'' ! n]
      else string_of_nat (n div 10) @ [''0123456789'' ! (n mod 10)])"

declare string_of_nat.simps [simp del]

definition string_of_int :: "int \<Rightarrow> string" where
  "string_of_int i = (if i < 0 then CHR ''-'' # string_of_nat (nat (- i)) else string_of_nat (nat i))"

subsection \<open>The data model of the spec\<close>

text \<open>
  The records of the spec's data model, after its words (sections 3 and 6): RunLog,
  RunStatusSnapshot, CourtSummary and the run summary of a discovery. The spec names the
  fields and no types; each field has the type of the front end's field of that name.
\<close>

record RunLog =
  id :: int
  status :: string
  records_extracted :: int
  error_message :: "string option"
  run_date :: string
  created_at :: string

record RunStatusSnapshot =
  status :: string
  last_run :: "string option"
  last_status :: "string option"
  total_records :: int
  last_extraction_count :: int

record CourtSummary =
  court_number :: string
  court_name :: string
  judge :: string
  url :: string
  has_data :: bool

record DiscoverSummary =
  date :: string
  total_courts_checked :: int
  courts_with_data :: int
  courts :: "CourtSummary list"

subsection \<open>The data shapes of \<^verbatim>\<open>admin/page.tsx\<close>\<close>

record ScraperLog =
  id :: int
  status :: string
  records_extracted :: int
  error_message :: "string option"
  run_date :: string
  created_at :: string

record ScraperStatus =
  status :: string
  last_run :: "string option"
  last_status :: "string option"
  total_records :: int
  last_extraction_count :: int

record Court =
  court_number :: string
  court_name :: string
  judge :: string
  url :: string
  has_data :: bool

record CourtDiscoveryResponse =
  date :: string
  total_courts_checked :: int
  courts_with_data :: int
  courts :: "Court list"

text \<open>Each record of the front end against the spec's record, field by field.\<close>

definition RunLog_of :: "ScraperLog \<Rightarrow> RunLog" where
  "RunLog_of l =
     \<lparr>RunLog.id = ScraperLog.id l, RunLog.status = ScraperLog.status l,
      RunLog.records_extracted = ScraperLog.records_extracted l,
      RunLog.error_message = ScraperLog.error_message l,
      RunLog.run_date = ScraperLog.run_date l, RunLog.created_at = ScraperLog.created_at l\<rparr>"

definition ScraperLog_of :: "RunLog \<Rightarrow> ScraperLog" where
  "ScraperLog_of r =
     \<lparr>ScraperLog.id = RunLog.id r, ScraperLog.status = RunLog.status r,
      ScraperLog.records_extracted = RunLog.records_extracted r,
      ScraperLog.error_message = RunLog.error_message r,
      ScraperLog.run_date = RunLog.run_date r, ScraperLog.created_at = RunLog.created_at r\<rparr>"

definition RunStatusSnapshot_of :: "ScraperStatus \<Rightarrow> RunStatusSnapshot" where
  "RunStatusSnapshot_of t =
     \<lparr>RunStatusSnapshot.status = ScraperStatus.status t,
      RunStatusSnapshot.last_run = ScraperStatus.last_run t,
      RunStatusSnapshot.last_status = ScraperStatus.last_status t,
      RunStatusSnapshot.total_records = ScraperStatus.total_records t,
      RunStatusSnapshot.last_extraction_count = ScraperStatus.last_extraction_count t\<rparr>"

definition ScraperStatus_of :: "RunStatusSnapshot \<Rightarrow> ScraperStatus" where
  "ScraperStatus_of t =
     \<lparr>ScraperStatus.status = RunStatusSnapshot.status t,
      ScraperStatus.last_run = RunStatusSnapshot.last_run t,
      ScraperStatus.last_status = RunStatusSnapshot.last_status t,
      ScraperStatus.total_records = RunStatusSnapshot.total_records t,
      ScraperStatus.last_extraction_count = RunStatusSnapshot.last_extraction_count t\<rparr>"

definition CourtSummary_of :: "Court \<Rightarrow> CourtSummary" where
  "CourtSummary_of c =
     \<lparr>CourtSummary.court_number = Court.court_number c,
      CourtSummary.court_name = Court.court_name c, CourtSummary.judge = Court.judge c,
      CourtSummary.url = Court.url c, CourtSummary.has_data = Court.has_data c\<rparr>"

definition Court_of :: "CourtSummary \<Rightarrow> Court" where
  "Court_of c =
     \<lparr>Court.court_number = CourtSummary.court_number c,
      Court.court_name = CourtSummary.court_name c, Court.judge = CourtSummary.judge c,
      Court.url = CourtSummary.url c, Court.has_data = CourtSummary.has_data c\<rparr>"

definition DiscoverSummary_of :: "CourtDiscoveryResponse \<Rightarrow> DiscoverSummary" where
  "DiscoverSummary_of d =
     \<lparr>DiscoverSummary.date = CourtDiscoveryResponse.date d,
      DiscoverSummary.total_courts_checked = CourtDiscoveryResponse.total_courts_checked d,
      DiscoverSummary.courts_with_data = CourtDiscoveryResponse.courts_with_data d,
      DiscoverSummary.courts = map CourtSummary_of (CourtDiscoveryResponse.courts d)\<rparr>"

definition CourtDiscoveryResponse_of :: "DiscoverSummary \<Rightarrow> CourtDiscoveryResponse" where
  "CourtDiscoveryResponse_of d =
     \<lparr>CourtDiscoveryResponse.date = DiscoverSummary.date d,
      CourtDiscoveryResponse.total_courts_checked = DiscoverSummary.total_courts_checked d,
      CourtDiscoveryResponse.courts_with_data = DiscoverSummary.courts_with_data d,
      CourtDiscoveryResponse.courts = map Court_of (DiscoverSummary.courts d)\<rparr>"

text \<open>The properties read from the other payloads.\<close>

record TriggerSummary =
  records_extracted :: int

record FetchSummary =
  total_cases_saved :: int
  courts_processed :: int

record ProgressSnapshot =
  logs :: "string list option"

record TokenResponse =
  access_token :: "string option"

text \<open>The property read from the body of a response that is not ok.\<close>

record TriggerFailure =
  message :: "string option"

record FetchFailure =
  detail :: "string option"

subsection \<open>The login page\<close>

text \<open>
  The state of \<^verbatim>\<open>LoginPage\<close>, with what \<^verbatim>\<open>handleLogin\<close> touches outside the
  component: the pending timer (its delay in ms), the token in \<^verbatim>\<open>localStorage\<close> and the
  route pushed to the router.
\<close>

record LoginPage =
  username :: string
  password :: string
  loading :: bool
  error :: string
  timeoutId :: "nat option"
  stored_token :: "string option"
  pushed :: "string option"

text \<open>
  What the awaited \<^verbatim>\<open>fetch\<close> of \<^verbatim>\<open>handleLogin\<close> does: the timer fires first and aborts
  it, it rejects by itself, or it gives a response whose body parses or not.
\<close>

datatype login_outcome =
    TimerFired string
  | Rejected js_error
  | Response bool "js_error + TokenResponse"

definition abort_error :: "string \<Rightarrow> js_error" where
  "abort_error msg = \<lparr>name = ''AbortError'', message = msg\<rparr>"

text \<open>Lines 15 to 33: up to the \<^verbatim>\<open>await fetch\<close>.\<close>

definition handleLogin :: "LoginPage \<Rightarrow> LoginPage \<times> request list" where
  "handleLogin s =
     (s\<lparr>LoginPage.loading := True, LoginPage.error := [], timeoutId := Some 10000\<rparr>,
      [\<lparr>req_method = POST, url = ''/api/proxy/api/auth/token'',
        headers = [(''Content-Type'', ''application/x-www-form-urlencoded'')],
        body = FormBody [(''username'', username s), (''password'', password s), (''scope'', [])]\<rparr>])"

text \<open>The \<^verbatim>\<open>catch\<close> block, lines 42 to 47.\<close>

definition handleLogin_catch :: "js_error \<Rightarrow> LoginPage \<Rightarrow> LoginPage" where
  "handleLogin_catch err s =
     (if name err = ''AbortError''
      then s\<lparr>LoginPage.error := ''Login timed out. Please ensure the backend API is running and try again.''\<rparr>
      else s\<lparr>LoginPage.error := message_or err ''Login failed''\<rparr>)"

text \<open>The \<^verbatim>\<open>finally\<close> block, lines 48 to 53.\<close>

definition handleLogin_finally :: "LoginPage \<Rightarrow> LoginPage" where
  "handleLogin_finally s =
     (case timeoutId s of
        Some t \<Rightarrow> s\<lparr>timeoutId := None, LoginPage.loading := False\<rparr>
      | None \<Rightarrow> s\<lparr>LoginPage.loading := False\<rparr>)"

text \<open>
  Lines 35 to 53. \<^verbatim>\<open>localStorage.setItem\<close> stores the string of its argument, so a
  missing \<^verbatim>\<open>access_token\<close> is stored as \<^verbatim>\<open>undefined\<close>.
\<close>

definition handleLogin_resume :: "login_outcome \<Rightarrow> LoginPage \<Rightarrow> LoginPage" where
  "handleLogin_resume outcome s =
     handleLogin_finally
       (case outcome of
          TimerFired msg \<Rightarrow> handleLogin_catch (abort_error msg) s
        | Rejected err \<Rightarrow> handleLogin_catch err s
        | Response ok parsed \<Rightarrow>
            if \<not> ok then handleLogin_catch \<lparr>name = ''Error'', message = ''Invalid credentials''\<rparr> s
            else (case parsed of
                    Inl err \<Rightarrow> handleLogin_catch err s
                  | Inr data \<Rightarrow>
                      s\<lparr>stored_token := Some (case access_token data of None \<Rightarrow> ''undefined'' | Some t \<Rightarrow> t),
                        pushed := Some ''/search''\<rparr>))"

subsection \<open>The admin dashboard: state\<close>

text \<open>The \<^verbatim>\<open>useState\<close> variables of \<^verbatim>\<open>AdminPage\<close>, lines 39 to 51.\<close>

record AdminPage =
  logs :: "ScraperLog list"
  status :: "ScraperStatus option"
  loading :: bool
  triggering :: bool
  targetDate :: string
  error :: string
  message :: string
  liveLogs :: "string list"
  discoveryDate :: string
  discovering :: bool
  discoveredCourts :: "Court list"
  selectedCourts :: "string list"
  fetchingCourts :: bool

definition initial :: AdminPage where
  "initial =
     \<lparr>logs = [], status = None, loading = True, triggering = False, targetDate = [],
      error = [], message = [], liveLogs = [], discoveryDate = [], discovering = False,
      discoveredCourts = [], selectedCourts = [], fetchingCourts = False\<rparr>"

subsection \<open>The admin dashboard: requests\<close>

definition stop_url :: string where
  "stop_url = ''/api/proxy/api/scraper/stop''"

definition stop_request :: "string option \<Rightarrow> request" where
  "stop_request token =
     \<lparr>req_method = POST, url = stop_url, headers = [(''Authorization'', bearer token)], body = NoBody\<rparr>"

definition progress_request :: "string option \<Rightarrow> request" where
  "progress_request token =
     \<lparr>req_method = GET, url = ''/api/proxy/api/scraper/progress'',
      headers = [(''Authorization'', bearer token)], body = NoBody\<rparr>"

definition status_request :: "string option \<Rightarrow> request" where
  "status_request token =
     \<lparr>req_method = GET, url = ''/api/proxy/api/scraper/status'',
      headers = [(''Authorization'', bearer token)], body = NoBody\<rparr>"

definition logs_request :: "string option \<Rightarrow> request" where
  "logs_request token =
     \<lparr>req_method = GET, url = ''/api/proxy/api/scraper/logs'',
      headers = [(''Authorization'', bearer token)], body = NoBody\<rparr>"

text \<open>Lines 133 to 141: the target date is appended only when it is not empty.\<close>

definition trigger_request :: "string option \<Rightarrow> string \<Rightarrow> request" where
  "trigger_request token target =
     \<lparr>req_method = POST,
      url = ''/api/proxy/api/scraper/trigger'' @ (if target \<noteq> [] then ''?target_date='' @ target else []),
      headers = [(''Authorization'', bearer token)], body = NoBody\<rparr>"

text \<open>Lines 172 to 177.\<close>

definition discover_url :: "string \<Rightarrow> string" where
  "discover_url d =
     ''/api/proxy/api/scraper/discover-courts?target_date='' @ d @ ''&court_start=1&court_end=60''"

definition discover_request :: "string option \<Rightarrow> string \<Rightarrow> request" where
  "discover_request token d =
     \<lparr>req_method = GET, url = discover_url d, headers = [(''Authorization'', bearer token)], body = NoBody\<rparr>"

text \<open>Lines 209 to 219.\<close>

definition fetch_court_data_request :: "string option \<Rightarrow> string \<Rightarrow> string list \<Rightarrow> request" where
  "fetch_court_data_request token d selected =
     \<lparr>req_method = POST, url = ''/api/proxy/api/scraper/fetch-court-data'',
      headers = [(''Authorization'', bearer token), (''Content-Type'', ''application/json'')],
      body = JsonBody (JObj [(''target_date'', JStr d), (''court_numbers'', JArr (map JStr selected))])\<rparr>"

subsection \<open>The admin dashboard: handlers\<close>

text \<open>\<^verbatim>\<open>stopScraper\<close>, lines 53 to 64. The response is not looked at; a throw is only logged.\<close>

definition stopScraper :: "string option \<Rightarrow> AdminPage \<Rightarrow> AdminPage \<times> request list" where
  "stopScraper token s = (s, [stop_request token])"

definition stopScraper_resume :: "(unit, unit) reply \<Rightarrow> AdminPage \<Rightarrow> AdminPage" where
  "stopScraper_resume r s =
     (case r of Threw err \<Rightarrow> s | NotOk _ \<Rightarrow> s\<lparr>message := ''Stop requested...''\<rparr>
      | Ok _ \<Rightarrow> s\<lparr>message := ''Stop requested...''\<rparr>)"

text \<open>
  \<^verbatim>\<open>fetchData\<close>, lines 94 to 124. Both requests are sent together; \<^verbatim>\<open>Promise.all\<close>
  throws when either \<^verbatim>\<open>fetch\<close> does. Each response is then ignored when not ok, and
  parsed otherwise, which may throw.
\<close>

datatype 'a part = NotOkPart | BadJson js_error | Parsed 'a

datatype fetchData_outcome =
    FetchThrew js_error
  | Both "ScraperStatus part" "ScraperLog list part"

definition fetchData :: "string option \<Rightarrow> AdminPage \<Rightarrow> AdminPage \<times> request list" where
  "fetchData token s =
     (if token = None \<or> token = Some []
      then (s\<lparr>error := ''Please login first'', loading := False\<rparr>, [])
      else (s, [status_request token, logs_request token]))"

definition fetchData_catch :: "js_error \<Rightarrow> AdminPage \<Rightarrow> AdminPage" where
  "fetchData_catch err s = s\<lparr>error := message_or err ''Failed to load data'', loading := False\<rparr>"

definition fetchData_resume :: "fetchData_outcome \<Rightarrow> AdminPage \<Rightarrow> AdminPage" where
  "fetchData_resume outcome s =
     (case outcome of
        FetchThrew err \<Rightarrow> fetchData_catch err s
      | Both st lg \<Rightarrow>
          (case st of
             BadJson err \<Rightarrow> fetchData_catch err s
           | _ \<Rightarrow>
              (let s1 = (case st of Parsed statusData \<Rightarrow> s\<lparr>status := Some statusData\<rparr> | _ \<Rightarrow> s)
               in case lg of
                    BadJson err \<Rightarrow> fetchData_catch err s1
                  | NotOkPart \<Rightarrow> s1\<lparr>loading := False\<rparr>
                  | Parsed logsData \<Rightarrow> s1\<lparr>logs := logsData, loading := False\<rparr>)))"

text \<open>
  \<^verbatim>\<open>triggerScraper\<close>, lines 126 to 156. On an ok response \<^verbatim>\<open>fetchData()\<close> is
  started and not awaited, so its requests go out before the \<^verbatim>\<open>finally\<close> block runs.
\<close>

definition triggerScraper :: "string option \<Rightarrow> AdminPage \<Rightarrow> AdminPage \<times> request list" where
  "triggerScraper token s =
     (s\<lparr>triggering := True, message := [], error := []\<rparr>, [trigger_request token (targetDate s)])"

definition triggerScraper_resume ::
  "string option \<Rightarrow> (TriggerSummary, TriggerFailure) reply \<Rightarrow> AdminPage \<Rightarrow> AdminPage \<times> request list" where
  "triggerScraper_resume token r s =
     (case r of
        Ok data \<Rightarrow>
          (let (s1, rs) = fetchData token
                 (s\<lparr>message := ''Scraper completed! Extracted '' @
                                 string_of_int (TriggerSummary.records_extracted data) @ '' records.''\<rparr>)
           in (s1\<lparr>triggering := False\<rparr>, rs))
      | NotOk data \<Rightarrow>
          (s\<lparr>error := field_or (TriggerFailure.message data) ''Failed to trigger scraper'', triggering := False\<rparr>, [])
      | Threw err \<Rightarrow>
          (s\<lparr>error := message_or err ''Failed to trigger scraper'', triggering := False\<rparr>, []))"

text \<open>\<^verbatim>\<open>discoverCourts\<close>, lines 158 to 195.\<close>

definition discoverCourts :: "string option \<Rightarrow> AdminPage \<Rightarrow> AdminPage \<times> request list" where
  "discoverCourts token s =
     (if discoveryDate s = []
      then (s\<lparr>error := ''Please select a date for court discovery''\<rparr>, [])
      else (s\<lparr>discovering := True, error := [], message := [], discoveredCourts := [],
              selectedCourts := []\<rparr>,
            [discover_request token (discoveryDate s)]))"

definition discoverCourts_resume ::
  "(CourtDiscoveryResponse, unit) reply \<Rightarrow> AdminPage \<Rightarrow> AdminPage" where
  "discoverCourts_resume r s =
     (case r of
        Ok data \<Rightarrow>
          (let s1 = s\<lparr>discoveredCourts := courts data,
                      message := ''Found '' @ string_of_int (courts_with_data data) @
                                 '' courts with data out of '' @
                                 string_of_int (total_courts_checked data) @ '' checked''\<rparr>;
               s2 = (if length (courts data) > 0
                     then s1\<lparr>selectedCourts := map court_number (courts data)\<rparr> else s1)
           in s2\<lparr>discovering := False\<rparr>)
      | NotOk _ \<Rightarrow> s\<lparr>error := ''Failed to discover courts'', discovering := False\<rparr>
      | Threw err \<Rightarrow> s\<lparr>error := message_or err ''Failed to discover courts'', discovering := False\<rparr>)"

text \<open>\<^verbatim>\<open>fetchSelectedCourts\<close>, lines 197 to 234.\<close>

definition fetchSelectedCourts :: "string option \<Rightarrow> AdminPage \<Rightarrow> AdminPage \<times> request list" where
  "fetchSelectedCourts token s =
     (if length (selectedCourts s) = 0
      then (s\<lparr>error := ''No courts selected''\<rparr>, [])
      else (s\<lparr>fetchingCourts := True, error := [], message := []\<rparr>,
            [fetch_court_data_request token (discoveryDate s) (selectedCourts s)]))"

definition fetchSelectedCourts_resume ::
  "string option \<Rightarrow> (FetchSummary, FetchFailure) reply \<Rightarrow> AdminPage \<Rightarrow> AdminPage \<times> request list" where
  "fetchSelectedCourts_resume token r s =
     (case r of
        Ok data \<Rightarrow>
          (let (s1, rs) = fetchData token
                 (s\<lparr>message := ''Successfully saved '' @ string_of_int (total_cases_saved data) @
                                 '' cases from '' @ string_of_int (courts_processed data) @ '' courts''\<rparr>)
           in (s1\<lparr>fetchingCourts := False\<rparr>, rs))
      | NotOk data \<Rightarrow>
          (s\<lparr>error := field_or (detail data) ''Failed to fetch court data'', fetchingCourts := False\<rparr>, [])
      | Threw err \<Rightarrow>
          (s\<lparr>error := message_or err ''Failed to fetch court data'', fetchingCourts := False\<rparr>, []))"

text \<open>Lines 236 to 250. \<^verbatim>\<open>includes\<close> and \<^verbatim>\<open>!==\<close> compare strings by value.\<close>

definition toggle :: "string \<Rightarrow> string list \<Rightarrow> string list" where
  "toggle courtNumber prev =
     (if List.member prev courtNumber then filter (\<lambda>c. c \<noteq> courtNumber) prev
      else prev @ [courtNumber])"

definition toggleCourtSelection :: "string \<Rightarrow> AdminPage \<Rightarrow> AdminPage" where
  "toggleCourtSelection courtNumber s = s\<lparr>selectedCourts := toggle courtNumber (selectedCourts s)\<rparr>"

definition selectAllCourts :: "AdminPage \<Rightarrow> AdminPage" where
  "selectAllCourts s = s\<lparr>selectedCourts := map court_number (discoveredCourts s)\<rparr>"

definition deselectAllCourts :: "AdminPage \<Rightarrow> AdminPage" where
  "deselectAllCourts s = s\<lparr>selectedCourts := []\<rparr>"

text \<open>
  The callback given to \<^verbatim>\<open>setInterval\<close>, lines 71 to 86: it requests the progress
  snapshot; the logs replace \<^verbatim>\<open>liveLogs\<close> when the response is ok and has them. A
  throw is only logged.
\<close>

definition poll :: "string option \<Rightarrow> AdminPage \<Rightarrow> AdminPage \<times> request list" where
  "poll token s = (s, [progress_request token])"

definition poll_resume :: "(ProgressSnapshot, unit) reply \<Rightarrow> AdminPage \<Rightarrow> AdminPage" where
  "poll_resume r s =
     (case r of
        Ok data \<Rightarrow> (case ProgressSnapshot.logs data of Some ls \<Rightarrow> s\<lparr>liveLogs := ls\<rparr> | None \<Rightarrow> s)
      | NotOk _ \<Rightarrow> s
      | Threw err \<Rightarrow> s)"

subsection \<open>The admin dashboard: what is rendered\<close>

text \<open>The controls of the JSX that carry a handler, lines 316 to 562.\<close>

datatype control =
    RunScraperNow
  | StopButton
  | TriggerManually
  | DiscoverCourtsButton
  | SelectAllButton
  | DeselectAllButton
  | HeaderCheckbox
  | CourtCheckbox string
  | FetchSelectedButton

text \<open>
  Everything is inside the \<^verbatim>\<open>loading ? ... : ...\<close> of line 286; the Stop button is inside
  \<^verbatim>\<open>triggering &&\<close> (line 332), the court table and its buttons inside
  \<^verbatim>\<open>discoveredCourts.length > 0 &&\<close> (line 457), one checkbox for each discovered court.
\<close>

definition rendered :: "AdminPage \<Rightarrow> control \<Rightarrow> bool" where
  "rendered s c =
     (\<not> loading s \<and>
      (case c of
         RunScraperNow \<Rightarrow> True
       | StopButton \<Rightarrow> triggering s
       | TriggerManually \<Rightarrow> True
       | DiscoverCourtsButton \<Rightarrow> True
       | CourtCheckbox n \<Rightarrow>
           length (discoveredCourts s) > 0 \<and> List.member (map court_number (discoveredCourts s)) n
       | _ \<Rightarrow> length (discoveredCourts s) > 0))"

text \<open>The \<^verbatim>\<open>disabled\<close> attributes, lines 318, 394, 441 and 546.\<close>

definition disabled :: "AdminPage \<Rightarrow> control \<Rightarrow> bool" where
  "disabled s c =
     (case c of
        RunScraperNow \<Rightarrow> triggering s
      | TriggerManually \<Rightarrow> triggering s
      | DiscoverCourtsButton \<Rightarrow> discovering s \<or> discoveryDate s = []
      | FetchSelectedButton \<Rightarrow> fetchingCourts s \<or> length (selectedCourts s) = 0
      | _ \<Rightarrow> False)"

text \<open>The \<^verbatim>\<open>onClick\<close> and \<^verbatim>\<open>onChange\<close> attributes of the controls.\<close>

definition onClick :: "string option \<Rightarrow> control \<Rightarrow> AdminPage \<Rightarrow> AdminPage \<times> request list" where
  "onClick token c s =
     (case c of
        RunScraperNow \<Rightarrow> triggerScraper token s
      | StopButton \<Rightarrow> stopScraper token s
      | TriggerManually \<Rightarrow> triggerScraper token s
      | DiscoverCourtsButton \<Rightarrow> discoverCourts token s
      | SelectAllButton \<Rightarrow> (selectAllCourts s, [])
      | DeselectAllButton \<Rightarrow> (deselectAllCourts s, [])
      | HeaderCheckbox \<Rightarrow>
          (if length (selectedCourts s) = length (discoveredCourts s)
           then deselectAllCourts s else selectAllCourts s, [])
      | CourtCheckbox n \<Rightarrow> (toggleCourtSelection n s, [])
      | FetchSelectedButton \<Rightarrow> fetchSelectedCourts token s)"

subsection \<open>The admin dashboard: the polling effect and the events\<close>

text \<open>
  The mounted component: its state and the interval the effect of lines 66 to 92 holds
  (its period in ms), if any.
\<close>

record Mounted =
  page :: AdminPage
  intervalId :: "nat option"

text \<open>The body of the effect, lines 69 to 87, and the cleanup it returns, lines 89 to 91.\<close>

definition progress_effect :: "Mounted \<Rightarrow> Mounted" where
  "progress_effect m =
     (if triggering (page m) \<or> discovering (page m) \<or> fetchingCourts (page m)
      then m\<lparr>page := (page m)\<lparr>liveLogs := []\<rparr>, intervalId := Some 2000\<rparr>
      else m)"

definition progress_cleanup :: "Mounted \<Rightarrow> Mounted" where
  "progress_cleanup m = m\<lparr>intervalId := None\<rparr>"

text \<open>The dependency array of the effect, line 92.\<close>

definition deps :: "AdminPage \<Rightarrow> bool \<times> bool \<times> bool" where
  "deps s = (triggering s, discovering s, fetchingCourts s)"

text \<open>
  React after a render: an effect whose dependencies differ from those of the previous
  render runs the cleanup of its previous run and then its body.
\<close>

definition commit :: "AdminPage \<Rightarrow> Mounted \<Rightarrow> Mounted" where
  "commit previous m =
     (if deps (page m) \<noteq> deps previous then progress_effect (progress_cleanup m) else m)"

text \<open>
  What can happen to the mounted dashboard: the operator uses a control or a date input,
  the interval fires, or an awaited request settles.
\<close>

datatype event =
    Click control
  | ChangeTargetDate string
  | ChangeDiscoveryDate string
  | IntervalFires
  | ProgressReply "(ProgressSnapshot, unit) reply"
  | StopReply "(unit, unit) reply"
  | FetchDataReply fetchData_outcome
  | TriggerReply "(TriggerSummary, TriggerFailure) reply"
  | DiscoverReply "(CourtDiscoveryResponse, unit) reply"
  | FetchReply "(FetchSummary, FetchFailure) reply"

text \<open>
  The handler an event runs. A control that is not rendered or is disabled takes no
  click; the date inputs are rendered when the page is not loading; the interval fires
  only while it is set.
\<close>

definition handle :: "string option \<Rightarrow> event \<Rightarrow> Mounted \<Rightarrow> AdminPage \<times> request list" where
  "handle token ev m =
     (let s = page m in
      case ev of
        Click c \<Rightarrow> if rendered s c \<and> \<not> disabled s c then onClick token c s else (s, [])
      | ChangeTargetDate v \<Rightarrow> if loading s then (s, []) else (s\<lparr>targetDate := v\<rparr>, [])
      | ChangeDiscoveryDate v \<Rightarrow> if loading s then (s, []) else (s\<lparr>discoveryDate := v\<rparr>, [])
      | IntervalFires \<Rightarrow> if intervalId m = None then (s, []) else poll token s
      | ProgressReply r \<Rightarrow> (poll_resume r s, [])
      | StopReply r \<Rightarrow> (stopScraper_resume r s, [])
      | FetchDataReply r \<Rightarrow> (fetchData_resume r s, [])
      | TriggerReply r \<Rightarrow> triggerScraper_resume token r s
      | DiscoverReply r \<Rightarrow> (discoverCourts_resume r s, [])
      | FetchReply r \<Rightarrow> fetchSelectedCourts_resume token r s)"

definition step :: "string option \<Rightarrow> event \<Rightarrow> Mounted \<Rightarrow> Mounted \<times> request list" where
  "step token ev m =
     (let (s', rs) = handle token ev m in (commit (page m) (m\<lparr>page := s'\<rparr>), rs))"

fun run :: "string option \<Rightarrow> event list \<Rightarrow> Mounted \<Rightarrow> Mounted \<times> request list" where
  "run token [] m = (m, [])"
| "run token (ev # evs) m =
     (let (m1, rs) = step token ev m; (m2, rs') = run token evs m1 in (m2, rs @ rs'))"

text \<open>
  Mounting: the polling effect finds no run in progress, and the effect of lines 252 to
  254 calls \<^verbatim>\<open>fetchData\<close>.
\<close>

definition mount :: "string option \<Rightarrow> Mounted \<times> request list" where
  "mount token =
     (let (s, rs) = fetchData token initial
      in (progress_effect \<lparr>page = s, intervalId = None\<rparr>, rs))"

text \<open>The selection names only discovered courts.\<close>

definition selection_within_discovered :: "AdminPage \<Rightarrow> bool" where
  "selection_within_discovered s =
     (set (selectedCourts s) \<subseteq> set (map court_number (discoveredCourts s)))"

text \<open>Some run is in progress, as the condition of line 69 has it.\<close>

definition run_in_progress :: "AdminPage \<Rightarrow> bool" where
  "run_in_progress s = (triggering s \<or> discovering s \<or> fetchingCourts s)"

text \<open>The interval is held exactly while a run is in progress, with the period of line 86.\<close>

definition interval_matches :: "Mounted \<Rightarrow> bool" where
  "interval_matches m = (intervalId m = (if run_in_progress (page m) then Some 2000 else None))"

definition is_ProgressReply :: "event \<Rightarrow> bool" where
  "is_ProgressReply ev = (case ev of ProgressReply _ \<Rightarrow> True | _ \<Rightarrow> False)"

subsection \<open>Reading the query string of a request\<close>

text \<open>
  The parameters a URL carries: the text after the first \<^verbatim>\<open>?\<close>, cut at every
  \<^verbatim>\<open>&\<close>, each piece cut at its first \<^verbatim>\<open>=\<close>. Percent-decoding is left out: the
  values of a date input are digits and hyphens.
\<close>

fun split_on :: "char \<Rightarrow> string \<Rightarrow> string list" where
  "split_on sep [] = [[]]"
| "split_on sep (x # xs) =
     (if x = sep then [] # split_on sep xs
      else (case split_on sep xs of w # ws \<Rightarrow> (x # w) # ws | [] \<Rightarrow> [[x]]))"

definition url_path :: "string \<Rightarrow> string" where
  "url_path u = takeWhile (\<lambda>c. c \<noteq> CHR ''?'') u"

definition query_string :: "string \<Rightarrow> string" where
  "query_string u = drop 1 (dropWhile (\<lambda>c. c \<noteq> CHR ''?'') u)"

definition key_value :: "string \<Rightarrow> string \<times> string" where
  "key_value piece =
     (takeWhile (\<lambda>c. c \<noteq> CHR ''='') piece, drop 1 (dropWhile (\<lambda>c. c \<noteq> CHR ''='') piece))"

definition query_params :: "string \<Rightarrow> (string \<times> string) list" where
  "query_params u = map key_value (split_on (CHR ''&'') (query_string u))"

text \<open>The value of an \<^verbatim>\<open><input type="date">\<close> once a date is chosen: digits and hyphens.\<close>

definition date_input_value :: "string \<Rightarrow> bool" where
  "date_input_value d = (d \<noteq> [] \<and> list_all (\<lambda>c. List.member ''0123456789-'' c) d)"

definition nat_of_string :: "string \<Rightarrow> nat option" where
  "nat_of_string t =
     (if t \<noteq> [] \<and> list_all (\<lambda>c. List.member ''0123456789'' c) t
      then Some (foldl (\<lambda>a c. 10 * a + (of_char c - 48)) 0 t) else None)"

text \<open>The court range a request asks for.\<close>

definition requested_range :: "request \<Rightarrow> (nat \<times> nat) option" where
  "requested_range r =
     (case (map_of (query_params (request.url r)) ''court_start'', map_of (query_params (request.url r)) ''court_end'') of
        (Some a, Some b) \<Rightarrow>
          (case (nat_of_string a, nat_of_string b) of (Some i, Some j) \<Rightarrow> Some (i, j) | _ \<Rightarrow> None)
      | _ \<Rightarrow> None)"

subsection \<open>The discovery run behind the endpoint\<close>

text \<open>
  Modelled from the spec: the discovery run of the backend's run coordinator, which is
  not among the sources. Section 4.4, discovery mode: for each court number in the
  requested range the court filter determines \<^verbatim>\<open>has_data\<close>; the result is the sequence
  of court summaries with the counts \<^verbatim>\<open>total_courts_checked\<close> and
  \<^verbatim>\<open>courts_with_data\<close>. The document is given by its court filter, and the summary of
  a court by a function of its number and entries.
\<close>

definition discovery_run ::
  "(nat \<Rightarrow> 'entry list) \<Rightarrow> (nat \<Rightarrow> 'entry list \<Rightarrow> Court) \<Rightarrow> string \<Rightarrow> nat \<Rightarrow> nat
     \<Rightarrow> CourtDiscoveryResponse" where
  "discovery_run filter_court summarise d court_start court_end =
     (let checked = [court_start ..< Suc court_end];
          found = filter (\<lambda>n. filter_court n \<noteq> []) checked
      in \<lparr>date = d, total_courts_checked = int (length checked),
          courts_with_data = int (length found),
          courts = map (\<lambda>n. summarise n (filter_court n)) found\<rparr>)"

subsection \<open>Two sessions of the operator\<close>

text \<open>
  The page has loaded, the operator has chosen a discovery date and has started the
  scraper, whose request is still awaited.
\<close>

definition scraper_running :: Mounted where
  "scraper_running =
     fst (run (Some ''t'')
            [FetchDataReply (Both NotOkPart NotOkPart),
             ChangeDiscoveryDate ''2025-01-15'',
             Click RunScraperNow]
            (fst (mount (Some ''t''))))"

text \<open>The operator then starts a discovery, and a progress snapshot arrives.\<close>

definition both_running :: Mounted where
  "both_running =
     fst (run (Some ''t'')
            [Click DiscoverCourtsButton,
             IntervalFires,
             ProgressReply (Ok \<lparr>ProgressSnapshot.logs = Some [''Processing court 1'']\<rparr>)]
            scraper_running)"

text \<open>The scraper's request settles while the discovery is still awaited.\<close>

definition scraper_ended :: Mounted where
  "scraper_ended = fst (step (Some ''t'') (TriggerReply (NotOk \<lparr>TriggerFailure.message = None\<rparr>)) both_running)"

text \<open>The page has loaded and nothing runs.\<close>

definition idle :: Mounted where
  "idle = fst (run (Some ''t'') [FetchDataReply (Both NotOkPart NotOkPart)] (fst (mount (Some ''t''))))"

text \<open>A discovery has found two courts, both selected by default.\<close>

definition two_courts :: CourtDiscoveryResponse where
  "two_courts =
     \<lparr>date = ''2025-01-15'', total_courts_checked = 60, courts_with_data = 2,
      courts =
        [\<lparr>court_number = ''3'', court_name = ''COURT NO. 3'', judge = ''A'', url = ''/c/3'',
          has_data = True\<rparr>,
         \<lparr>court_number = ''17'', court_name = ''COURT NO. 17'', judge = ''B'', url = ''/c/17'',
          has_data = True\<rparr>]\<rparr>"

definition discovered :: Mounted where
  "discovered =
     fst (run (Some ''t'')
            [ChangeDiscoveryDate ''2025-01-15'',
             Click DiscoverCourtsButton,
             DiscoverReply (Ok two_courts)]
            idle)"

text \<open>The scraper runs alone and a progress snapshot has arrived.\<close>

definition scraper_polled :: Mounted where
  "scraper_polled =
     fst (run (Some ''t'')
            [IntervalFires,
             ProgressReply (Ok \<lparr>ProgressSnapshot.logs = Some [''Processing court 1'']\<rparr>)]
            scraper_running)"

text \<open>
  A cause document in which the courts 3, 17 and 40 have an entry, as in the example of
  the spec's section 8, with a summary that only names the court.
\<close>

definition three_courts_document :: "nat \<Rightarrow> unit list" where
  "three_courts_document n = (if n = 3 \<or> n = 17 \<or> n = 40 then [()] else [])"

definition named_summary :: "nat \<Rightarrow> unit list \<Rightarrow> Court" where
  "named_summary n entries =
     \<lparr>court_number = string_of_nat n, court_name = ''COURT NO. '' @ string_of_nat n,
      judge = [], url = [], has_data = (entries \<noteq> [])\<rparr>"

text \<open>A discovery is awaited and nothing else runs.\<close>

definition discovery_running :: Mounted where
  "discovery_running =
     fst (run (Some ''t'')
            [FetchDataReply (Both NotOkPart NotOkPart),
             ChangeDiscoveryDate ''2025-01-15'',
             Click DiscoverCourtsButton]
            (fst (mount (Some ''t''))))"

text \<open>The discovery has found two courts and the fetch of both is awaited.\<close>

definition fetch_running :: Mounted where
  "fetch_running =
     fst (run (Some ''t'')
            [FetchDataReply (Both NotOkPart NotOkPart),
             ChangeDiscoveryDate ''2025-01-15'',
             Click DiscoverCourtsButton,
             DiscoverReply (Ok two_courts),
             Click FetchSelectedButton]
            (fst (mount (Some ''t''))))"

text \<open>The discovery has found two courts and the scraper has been started after it.\<close>

definition scraper_running_after_discovery :: Mounted where
  "scraper_running_after_discovery =
     fst (run (Some ''t'')
            [FetchDataReply (Both NotOkPart NotOkPart),
             ChangeDiscoveryDate ''2025-01-15'',
             Click DiscoverCourtsButton,
             DiscoverReply (Ok two_courts),
             Click RunScraperNow]
            (fst (mount (Some ''t''))))"

text \<open>While a discovery is awaited, no court is listed and none is selected.\<close>

definition lists_empty_while_discovering :: "AdminPage \<Rightarrow> bool" where
  "lists_empty_while_discovering s =
     (if discovering s then discoveredCourts s = [] \<and> selectedCourts s = [] else True)"

section \<open>Properties\<close>

subsection \<open>Helper facts about the events\<close>

lemma commit_same [simp]: "commit (page m) m = m"
  by (simp add: commit_def)

lemma step_ignored_click:
  "\<not> rendered (page m) c \<or> disabled (page m) c \<Longrightarrow> step token (Click c) m = (m, [])"
  by (auto simp: step_def handle_def)

lemma snd_step: "snd (step token ev m) = snd (handle token ev m)"
  by (simp add: step_def split: prod.splits)

lemma stop_url_only_by_stop:
  "r \<in> set (snd (handle token ev m)) \<Longrightarrow> request.url r = stop_url \<Longrightarrow>
     r = stop_request token \<and> ev = Click StopButton \<and> triggering (page m)"
  by (auto simp: handle_def onClick_def Let_def stop_url_def stop_request_def poll_def
        progress_request_def triggerScraper_def trigger_request_def discoverCourts_def
        discover_request_def discover_url_def fetchSelectedCourts_def fetch_court_data_request_def
        stopScraper_def triggerScraper_resume_def fetchSelectedCourts_resume_def fetchData_def
        status_request_def logs_request_def rendered_def
        split: event.splits control.splits if_splits reply.splits prod.splits)

lemma click_keeps_selection_within:
  "selection_within_discovered (page m) \<Longrightarrow>
     selection_within_discovered (fst (handle token (Click c) m))"
  by (cases c)
     (auto simp: handle_def Let_def onClick_def selection_within_discovered_def rendered_def
        toggleCourtSelection_def toggle_def selectAllCourts_def deselectAllCourts_def
        triggerScraper_def stopScraper_def discoverCourts_def fetchSelectedCourts_def
        split: if_splits)

lemma page_commit_selected:
  "selectedCourts (page (commit p m)) = selectedCourts (page m)
   \<and> discoveredCourts (page (commit p m)) = discoveredCourts (page m)"
  by (simp add: commit_def progress_effect_def progress_cleanup_def)

lemma page_step:
  "selection_within_discovered (page (fst (step token ev m))) =
     selection_within_discovered (fst (handle token ev m))"
  by (simp add: step_def selection_within_discovered_def page_commit_selected split: prod.splits)

lemma step_click_keeps_selection_within:
  "selection_within_discovered (page m) \<Longrightarrow>
     selection_within_discovered (page (fst (step token (Click c) m)))"
  by (simp add: page_step click_keeps_selection_within)

lemma selection_operations_keep_within:
  "selection_within_discovered s \<Longrightarrow>
     selection_within_discovered (selectAllCourts s)
     \<and> selection_within_discovered (deselectAllCourts s)
     \<and> (List.member (map court_number (discoveredCourts s)) c \<longrightarrow>
          selection_within_discovered (toggleCourtSelection c s))"
  by (auto simp: selection_within_discovered_def selectAllCourts_def deselectAllCourts_def
        toggleCourtSelection_def toggle_def)

lemma commit_interval_matches:
  "interval_matches m \<Longrightarrow> interval_matches (commit (page m) (m\<lparr>page := s'\<rparr>))"
  by (auto simp: interval_matches_def commit_def progress_effect_def progress_cleanup_def
        deps_def run_in_progress_def)

lemma step_interval_matches:
  "interval_matches m \<Longrightarrow> interval_matches (fst (step token ev m))"
  by (simp add: step_def commit_interval_matches split: prod.splits)

lemma mount_interval_matches: "interval_matches (fst (mount token))"
  by (simp add: mount_def fetchData_def initial_def interval_matches_def progress_effect_def
        run_in_progress_def)

lemma run_interval_matches:
  "interval_matches m \<Longrightarrow> interval_matches (fst (run token evs m))"
proof (induction evs arbitrary: m)
  case Nil
  then show ?case by simp
next
  case (Cons ev evs)
  from Cons.prems have "interval_matches (fst (step token ev m))"
    by (rule step_interval_matches)
  then have "interval_matches (fst (run token evs (fst (step token ev m))))"
    by (rule Cons.IH)
  then show ?case
    by (simp add: split_beta Let_def)
qed

lemma fetchData_resume_liveLogs: "liveLogs (fetchData_resume r s) = liveLogs s"
  by (simp add: fetchData_resume_def fetchData_catch_def Let_def
        split: fetchData_outcome.splits part.splits)

lemma onClick_liveLogs: "liveLogs (fst (onClick token c s)) = liveLogs s"
  by (cases c)
     (simp_all add: onClick_def triggerScraper_def stopScraper_def discoverCourts_def
        selectAllCourts_def deselectAllCourts_def toggleCourtSelection_def fetchSelectedCourts_def)

lemma triggerScraper_resume_liveLogs: "liveLogs (fst (triggerScraper_resume token r s)) = liveLogs s"
  by (cases r) (simp_all add: triggerScraper_resume_def fetchData_def split: prod.splits)

lemma fetchSelectedCourts_resume_liveLogs:
  "liveLogs (fst (fetchSelectedCourts_resume token r s)) = liveLogs s"
  by (cases r) (simp_all add: fetchSelectedCourts_resume_def fetchData_def split: prod.splits)

lemma discoverCourts_resume_liveLogs: "liveLogs (discoverCourts_resume r s) = liveLogs s"
  by (cases r) (simp_all add: discoverCourts_resume_def Let_def)

lemma stopScraper_resume_liveLogs: "liveLogs (stopScraper_resume r s) = liveLogs s"
  by (cases r) (simp_all add: stopScraper_resume_def)

lemma handle_liveLogs:
  "\<not> is_ProgressReply ev \<Longrightarrow> liveLogs (fst (handle token ev m)) = liveLogs (page m)"
  by (cases ev)
     (simp_all add: handle_def Let_def is_ProgressReply_def onClick_liveLogs poll_def
        fetchData_resume_liveLogs triggerScraper_resume_liveLogs
        fetchSelectedCourts_resume_liveLogs discoverCourts_resume_liveLogs
        stopScraper_resume_liveLogs)

lemma commit_idle_liveLogs:
  "\<not> run_in_progress (page (commit p m)) \<Longrightarrow> liveLogs (page (commit p m)) = liveLogs (page m)"
  by (auto simp: commit_def progress_effect_def progress_cleanup_def run_in_progress_def
        split: if_splits)

lemma step_idle_liveLogs:
  "\<not> run_in_progress (page (fst (step token ev m))) \<Longrightarrow> \<not> is_ProgressReply ev \<Longrightarrow>
     liveLogs (page (fst (step token ev m))) = liveLogs (page m)"
  using handle_liveLogs [of ev token m]
  by (auto simp: step_def split: prod.splits dest!: commit_idle_liveLogs)

lemma step_start_resets:
  "rendered (page m) c \<Longrightarrow> \<not> disabled (page m) c \<Longrightarrow>
   List.member [RunScraperNow, TriggerManually, DiscoverCourtsButton, FetchSelectedButton] c \<Longrightarrow>
     liveLogs (page (fst (step token (Click c) m))) = []
     \<and> intervalId (fst (step token (Click c) m)) = Some 2000"
  by (auto simp: step_def handle_def onClick_def disabled_def commit_def deps_def
        progress_effect_def progress_cleanup_def triggerScraper_def discoverCourts_def
        fetchSelectedCourts_def Let_def)

lemma step_interval_fires:
  "interval_matches m \<Longrightarrow>
     step token IntervalFires m = (m, if run_in_progress (page m) then [progress_request token] else [])"
  by (auto simp: step_def handle_def poll_def interval_matches_def)

lemma step_progress_reply:
  "liveLogs (page (fst (step token (ProgressReply (Ok \<lparr>ProgressSnapshot.logs = Some ls\<rparr>)) m))) = ls"
  by (simp add: step_def handle_def poll_resume_def commit_def deps_def)

subsection \<open>Helper facts about the query string\<close>

lemma split_on_first: "sep \<notin> set xs \<Longrightarrow> split_on sep (xs @ sep # ys) = xs # split_on sep ys"
  by (induction xs) auto

lemma list_all_excludes: "list_all P xs \<Longrightarrow> \<not> P x \<Longrightarrow> x \<notin> set xs"
  by (auto simp: list_all_iff)

lemma amp_not_date_char: "\<not> List.member ''0123456789-'' (CHR ''&'')"
  by code_simp

lemma date_input_value_no_amp:
  assumes "date_input_value d"
  shows "CHR ''&'' \<notin> set d"
proof -
  from assms have "list_all (\<lambda>c. List.member ''0123456789-'' c) d"
    unfolding date_input_value_def by (rule conjunct2)
  then show ?thesis
    by (rule list_all_excludes) (rule amp_not_date_char)
qed

lemma query_string_discover_url:
  "query_string (discover_url d) = ''target_date='' @ d @ ''&court_start=1&court_end=60''"
  by (simp add: query_string_def discover_url_def)

lemma url_path_discover_url:
  "url_path (discover_url d) = ''/api/proxy/api/scraper/discover-courts''"
  by (simp add: url_path_def discover_url_def)

lemma query_params_discover_url:
  assumes "date_input_value d"
  shows "query_params (discover_url d)
           = [(''target_date'', d), (''court_start'', ''1''), (''court_end'', ''60'')]"
proof -
  have amp: "CHR ''&'' \<notin> set (''target_date='' @ d)"
    using date_input_value_no_amp [OF assms] by simp
  have "split_on (CHR ''&'') (query_string (discover_url d))
          = (''target_date='' @ d) # split_on (CHR ''&'') ''court_start=1&court_end=60''"
    using split_on_first [OF amp, of "''court_start=1&court_end=60''"]
    by (simp add: query_string_discover_url)
  then show ?thesis
    by (simp add: query_params_def key_value_def)
qed

lemma nat_of_string_1_60: "nat_of_string ''1'' = Some 1 \<and> nat_of_string ''60'' = Some 60"
  by code_simp

lemma requested_range_discover:
  "date_input_value d \<Longrightarrow> requested_range (discover_request token d) = Some (1, 60)"
  by (simp add: requested_range_def discover_request_def query_params_discover_url
        nat_of_string_1_60)

lemma discovery_run_total:
  "total_courts_checked (discovery_run filter_court summarise d a b) = int (Suc b - a)"
  by (auto simp: discovery_run_def Let_def)

subsection \<open>Helper facts about the login and the data shapes\<close>

lemma handleLogin_finally_clears:
  "LoginPage.loading (handleLogin_finally s) = False \<and> timeoutId (handleLogin_finally s) = None
   \<and> stored_token (handleLogin_finally s) = stored_token s
   \<and> pushed (handleLogin_finally s) = pushed s
   \<and> LoginPage.error (handleLogin_finally s) = LoginPage.error s"
  by (simp add: handleLogin_finally_def split: option.splits)

lemma handleLogin_catch_keeps:
  "stored_token (handleLogin_catch err s) = stored_token s
   \<and> pushed (handleLogin_catch err s) = pushed s"
  by (simp add: handleLogin_catch_def)

lemma Court_roundtrip: "Court_of (CourtSummary_of c) = c \<and> CourtSummary_of (Court_of k) = k"
  by (simp add: Court_of_def CourtSummary_of_def)

subsection \<open>Helper facts about the lists during a discovery and about the requests\<close>

lemma commit_lists:
  "lists_empty_while_discovering (page (commit p m)) = lists_empty_while_discovering (page m)"
  by (simp add: commit_def progress_effect_def progress_cleanup_def lists_empty_while_discovering_def)

lemma onClick_lists:
  "lists_empty_while_discovering s \<Longrightarrow> rendered s c \<Longrightarrow> \<not> disabled s c \<Longrightarrow>
     lists_empty_while_discovering (fst (onClick token c s))"
  by (cases c)
     (auto simp: lists_empty_while_discovering_def onClick_def rendered_def disabled_def
        triggerScraper_def stopScraper_def discoverCourts_def selectAllCourts_def
        deselectAllCourts_def toggleCourtSelection_def fetchSelectedCourts_def
        split: if_splits)

lemma handle_lists:
  "lists_empty_while_discovering (page m) \<Longrightarrow>
     lists_empty_while_discovering (fst (handle token ev m))"
proof (cases ev)
  case (Click c)
  assume "lists_empty_while_discovering (page m)"
  then show ?thesis
    using onClick_lists [of "page m" c token]
    by (simp add: Click handle_def Let_def)
next
  case (FetchDataReply r)
  assume "lists_empty_while_discovering (page m)"
  then show ?thesis
    by (simp add: FetchDataReply handle_def Let_def lists_empty_while_discovering_def
          fetchData_resume_def fetchData_catch_def
          split: fetchData_outcome.splits part.splits)
next
  case (TriggerReply r)
  assume "lists_empty_while_discovering (page m)"
  then show ?thesis
    by (cases r)
       (simp_all add: TriggerReply handle_def Let_def lists_empty_while_discovering_def
          triggerScraper_resume_def fetchData_def split: prod.splits)
next
  case (FetchReply r)
  assume "lists_empty_while_discovering (page m)"
  then show ?thesis
    by (cases r)
       (simp_all add: FetchReply handle_def Let_def lists_empty_while_discovering_def
          fetchSelectedCourts_resume_def fetchData_def split: prod.splits)
next
  case (DiscoverReply r)
  then show ?thesis
    by (cases r)
       (simp_all add: handle_def Let_def lists_empty_while_discovering_def
          discoverCourts_resume_def)
next
  case (StopReply r)
  assume "lists_empty_while_discovering (page m)"
  then show ?thesis
    by (cases r)
       (simp_all add: StopReply handle_def Let_def lists_empty_while_discovering_def
          stopScraper_resume_def)
next
  case (ProgressReply r)
  assume "lists_empty_while_discovering (page m)"
  then show ?thesis
    by (simp add: ProgressReply handle_def Let_def lists_empty_while_discovering_def
          poll_resume_def split: reply.splits option.splits)
qed (simp_all add: handle_def Let_def lists_empty_while_discovering_def poll_def)

lemma step_lists:
  "lists_empty_while_discovering (page m) \<Longrightarrow>
     lists_empty_while_discovering (page (fst (step token ev m)))"
  by (simp add: step_def split_beta commit_lists handle_lists)

lemma mount_lists: "lists_empty_while_discovering (page (fst (mount token)))"
  by (simp add: mount_def fetchData_def initial_def progress_effect_def
        lists_empty_while_discovering_def)

lemma run_lists:
  "lists_empty_while_discovering (page m) \<Longrightarrow>
     lists_empty_while_discovering (page (fst (run token evs m)))"
proof (induction evs arbitrary: m)
  case Nil
  then show ?case by simp
next
  case (Cons ev evs)
  from Cons.prems have "lists_empty_while_discovering (page (fst (step token ev m)))"
    by (rule step_lists)
  then have "lists_empty_while_discovering (page (fst (run token evs (fst (step token ev m)))))"
    by (rule Cons.IH)
  then show ?case
    by (simp add: split_beta Let_def)
qed


lemma run_from_mount_lists:
  "lists_empty_while_discovering (page (fst (run token evs (fst (mount token)))))"
  by (rule run_lists [OF mount_lists])

lemma fetch_blocked_while_discovering:
  assumes "lists_empty_while_discovering (page m)" and "discovering (page m)"
  shows "disabled (page m) FetchSelectedButton \<and> \<not> rendered (page m) FetchSelectedButton
       \<and> step token (Click FetchSelectedButton) m = (m, [])"
proof -
  from assms have empty: "discoveredCourts (page m) = []" "selectedCourts (page m) = []"
    by (simp_all add: lists_empty_while_discovering_def)
  then have "disabled (page m) FetchSelectedButton" and "\<not> rendered (page m) FetchSelectedButton"
    by (simp_all add: disabled_def rendered_def)
  then show ?thesis
    by (simp add: step_ignored_click)
qed

lemma every_request_known:
  "r \<in> set (snd (handle token ev m)) \<Longrightarrow>
     (r = stop_request token \<and> ev = Click StopButton \<and> triggering (page m))
     \<or> r = progress_request token
     \<or> r = status_request token
     \<or> r = logs_request token
     \<or> r = trigger_request token (targetDate (page m))
     \<or> r = discover_request token (discoveryDate (page m))
     \<or> r = fetch_court_data_request token (discoveryDate (page m)) (selectedCourts (page m))"
  by (cases ev)
     (auto simp: handle_def onClick_def Let_def poll_def triggerScraper_def discoverCourts_def
        fetchSelectedCourts_def stopScraper_def triggerScraper_resume_def
        fetchSelectedCourts_resume_def fetchData_def rendered_def
        split: control.splits if_splits reply.splits prod.splits)

lemma other_paths:
  "url_path (request.url (progress_request token)) \<noteq> stop_url
   \<and> url_path (request.url (status_request token)) \<noteq> stop_url
   \<and> url_path (request.url (logs_request token)) \<noteq> stop_url
   \<and> url_path (request.url (trigger_request token target)) \<noteq> stop_url
   \<and> url_path (request.url (discover_request token d)) \<noteq> stop_url
   \<and> url_path (request.url (fetch_court_data_request token d selected)) \<noteq> stop_url"
  by (simp add: url_path_def stop_url_def progress_request_def status_request_def
        logs_request_def trigger_request_def discover_request_def discover_url_def
        fetch_court_data_request_def)

lemma stop_path_only_by_stop:
  assumes "r \<in> set (snd (handle token ev m))"
    and "url_path (request.url r) = stop_url"
  shows "r = stop_request token \<and> ev = Click StopButton \<and> triggering (page m)"
  using every_request_known [OF assms(1)] assms(2) other_paths [of token "targetDate (page m)" "discoveryDate (page m)" "selectedCourts (page m)"]
  by (elim disjE) simp_all

subsection \<open>Starting a run while one is active\<close>

text \<open>
  C1, as the code has it: each control that starts a run is disabled while a run of its
  own kind is in progress, and a click on it then changes nothing and sends nothing. The
  \<^verbatim>\<open>triggering\<close> flag disables the two scraper buttons, \<^verbatim>\<open>discovering\<close> the Discover
  Courts button, \<^verbatim>\<open>fetchingCourts\<close> the Fetch Data button. Moreover, in every state the
  dashboard reaches from its mounting, the Fetch Data button is neither rendered nor
  enabled while a discovery is in progress, since no court is listed or selected then.
\<close>

theorem start_controls_disabled_while_run_in_progress:
  "(triggering (page m) \<longrightarrow>
      disabled (page m) RunScraperNow \<and> disabled (page m) TriggerManually
      \<and> step token (Click RunScraperNow) m = (m, [])
      \<and> step token (Click TriggerManually) m = (m, []))
   \<and> (discovering (page m) \<longrightarrow>
      disabled (page m) DiscoverCourtsButton
      \<and> step token (Click DiscoverCourtsButton) m = (m, []))
   \<and> (fetchingCourts (page m) \<longrightarrow>
      disabled (page m) FetchSelectedButton
      \<and> step token (Click FetchSelectedButton) m = (m, []))
   \<and> (discovering (page (fst (run token' evs (fst (mount token'))))) \<longrightarrow>
      disabled (page (fst (run token' evs (fst (mount token'))))) FetchSelectedButton
      \<and> \<not> rendered (page (fst (run token' evs (fst (mount token'))))) FetchSelectedButton
      \<and> step token (Click FetchSelectedButton) (fst (run token' evs (fst (mount token'))))
          = (fst (run token' evs (fst (mount token'))), []))"
proof (intro conjI impI)
  assume "discovering (page (fst (run token' evs (fst (mount token')))))"
  from fetch_blocked_while_discovering [OF run_from_mount_lists this, of token]
  show "disabled (page (fst (run token' evs (fst (mount token'))))) FetchSelectedButton"
    and "\<not> rendered (page (fst (run token' evs (fst (mount token'))))) FetchSelectedButton"
    and "step token (Click FetchSelectedButton) (fst (run token' evs (fst (mount token'))))
          = (fst (run token' evs (fst (mount token'))), [])"
    by simp_all
qed (simp_all add: step_ignored_click disabled_def)

theorem start_controls_disabled_while_run_in_progress_witness:
  "triggering (page scraper_running)
   \<and> disabled (page scraper_running) RunScraperNow
   \<and> disabled (page scraper_running) TriggerManually
   \<and> discovering (page discovery_running)
   \<and> discoveryDate (page discovery_running) = ''2025-01-15''
   \<and> disabled (page discovery_running) DiscoverCourtsButton
   \<and> disabled (page discovery_running) FetchSelectedButton
   \<and> \<not> rendered (page discovery_running) FetchSelectedButton
   \<and> fetchingCourts (page fetch_running)
   \<and> selectedCourts (page fetch_running) = [''3'', ''17'']
   \<and> rendered (page fetch_running) FetchSelectedButton
   \<and> disabled (page fetch_running) FetchSelectedButton
   \<and> step (Some ''t'') (Click FetchSelectedButton) fetch_running = (fetch_running, [])
   \<and> interval_matches scraper_running \<and> interval_matches discovery_running
   \<and> interval_matches fetch_running"
  using start_controls_disabled_while_run_in_progress
      [of scraper_running "Some ''t''" "Some ''t''"
          "[FetchDataReply (Both NotOkPart NotOkPart), ChangeDiscoveryDate ''2025-01-15'',
            Click DiscoverCourtsButton]"]
    start_controls_disabled_while_run_in_progress
      [of discovery_running "Some ''t''" "Some ''t''"
          "[FetchDataReply (Both NotOkPart NotOkPart), ChangeDiscoveryDate ''2025-01-15'',
            Click DiscoverCourtsButton]"]
    start_controls_disabled_while_run_in_progress
      [of fetch_running "Some ''t''" "Some ''t''"
          "[FetchDataReply (Both NotOkPart NotOkPart), ChangeDiscoveryDate ''2025-01-15'',
            Click DiscoverCourtsButton]"]
  by code_simp

text \<open>
  C1 as stated fails in each of the other combinations, all of them reached from the
  mounting: during a scraper run the Discover Courts button and, after a discovery, the
  Fetch Data button are rendered and enabled; during a discovery the scraper button is;
  during a fetch the scraper button and the Discover Courts button are. A click sends
  the request of the second run.
\<close>

theorem start_controls_enabled_across_kinds:
  "triggering (page scraper_running)
   \<and> rendered (page scraper_running) DiscoverCourtsButton
   \<and> \<not> disabled (page scraper_running) DiscoverCourtsButton
   \<and> snd (step (Some ''t'') (Click DiscoverCourtsButton) scraper_running)
       = [discover_request (Some ''t'') ''2025-01-15'']
   \<and> triggering (page scraper_running_after_discovery)
   \<and> rendered (page scraper_running_after_discovery) FetchSelectedButton
   \<and> \<not> disabled (page scraper_running_after_discovery) FetchSelectedButton
   \<and> snd (step (Some ''t'') (Click FetchSelectedButton) scraper_running_after_discovery)
       = [fetch_court_data_request (Some ''t'') ''2025-01-15'' [''3'', ''17'']]
   \<and> discovering (page discovery_running)
   \<and> rendered (page discovery_running) RunScraperNow
   \<and> \<not> disabled (page discovery_running) RunScraperNow
   \<and> snd (step (Some ''t'') (Click RunScraperNow) discovery_running)
       = [trigger_request (Some ''t'') []]
   \<and> fetchingCourts (page fetch_running)
   \<and> rendered (page fetch_running) RunScraperNow
   \<and> \<not> disabled (page fetch_running) RunScraperNow
   \<and> snd (step (Some ''t'') (Click RunScraperNow) fetch_running)
       = [trigger_request (Some ''t'') []]
   \<and> rendered (page fetch_running) DiscoverCourtsButton
   \<and> \<not> disabled (page fetch_running) DiscoverCourtsButton
   \<and> snd (step (Some ''t'') (Click DiscoverCourtsButton) fetch_running)
       = [discover_request (Some ''t'') ''2025-01-15'']"
  by code_simp

subsection \<open>The fetch request and its summary\<close>

text \<open>
  C3: with an empty selection \<^verbatim>\<open>fetchSelectedCourts\<close> sends nothing; otherwise it sends
  one POST whose body is the object of \<^verbatim>\<open>target_date\<close>, the discovery date, and
  \<^verbatim>\<open>court_numbers\<close>, the selected court numbers. On an ok response the message shown
  is made of \<^verbatim>\<open>total_cases_saved\<close> and \<^verbatim>\<open>courts_processed\<close>.
\<close>

theorem fetchSelectedCourts_request_and_summary:
  "(if length (selectedCourts s) = 0
    then snd (fetchSelectedCourts token s) = []
    else snd (fetchSelectedCourts token s) =
           [\<lparr>req_method = POST, url = ''/api/proxy/api/scraper/fetch-court-data'',
             headers = [(''Authorization'', bearer token), (''Content-Type'', ''application/json'')],
             body = JsonBody (JObj [(''target_date'', JStr (discoveryDate s)),
                                    (''court_numbers'', JArr (map JStr (selectedCourts s)))])\<rparr>])
   \<and> message (fst (fetchSelectedCourts_resume token (Ok data) s)) =
       ''Successfully saved '' @ string_of_int (total_cases_saved data) @
       '' cases from '' @ string_of_int (courts_processed data) @ '' courts''"
  by (simp add: fetchSelectedCourts_def fetch_court_data_request_def fetchSelectedCourts_resume_def
        fetchData_def split: prod.splits)

subsection \<open>The stop request\<close>

text \<open>
  C5: \<^verbatim>\<open>stopScraper\<close> sends one POST to the stop endpoint, with the authorization header
  and neither query string nor body. Whatever the event, every request the dashboard
  sends is one of seven: the stop request, which comes from a click on Stop while
  \<^verbatim>\<open>triggering\<close> holds, the progress, status and logs reads, and the three requests that
  start a run; a request whose path is the stop endpoint, whatever its query string, is
  the stop request itself. So nothing the dashboard sends takes a stop back. The Stop
  button is rendered only when \<^verbatim>\<open>triggering\<close> is true.
\<close>

theorem stop_request_set_only:
  "stopScraper token s = (s, [stop_request token])
   \<and> stop_request token =
       \<lparr>req_method = POST, url = ''/api/proxy/api/scraper/stop'',
        headers = [(''Authorization'', bearer token)], body = NoBody\<rparr>
   \<and> query_string (request.url (stop_request token)) = []
   \<and> (r \<in> set (snd (step token ev m)) \<longrightarrow>
        (r = stop_request token \<and> ev = Click StopButton \<and> triggering (page m))
        \<or> r = progress_request token
        \<or> r = status_request token
        \<or> r = logs_request token
        \<or> r = trigger_request token (targetDate (page m))
        \<or> r = discover_request token (discoveryDate (page m))
        \<or> r = fetch_court_data_request token (discoveryDate (page m)) (selectedCourts (page m)))
   \<and> (r \<in> set (snd (step token ev m)) \<and> url_path (request.url r) = stop_url \<longrightarrow>
        r = stop_request token \<and> ev = Click StopButton \<and> triggering (page m))
   \<and> (r \<in> set (snd (step token ev m)) \<and> request.url r = stop_url \<longrightarrow>
        r = stop_request token \<and> ev = Click StopButton \<and> triggering (page m))
   \<and> (rendered s StopButton \<longrightarrow> triggering s)"
proof (intro conjI impI)
  show "stopScraper token s = (s, [stop_request token])"
    by (simp add: stopScraper_def)
  show "stop_request token =
       \<lparr>req_method = POST, url = ''/api/proxy/api/scraper/stop'',
        headers = [(''Authorization'', bearer token)], body = NoBody\<rparr>"
    by (simp add: stop_request_def stop_url_def)
  show "query_string (request.url (stop_request token)) = []"
    by (simp add: stop_request_def stop_url_def query_string_def)
  {
    assume "r \<in> set (snd (step token ev m))"
    then show "(r = stop_request token \<and> ev = Click StopButton \<and> triggering (page m))
        \<or> r = progress_request token
        \<or> r = status_request token
        \<or> r = logs_request token
        \<or> r = trigger_request token (targetDate (page m))
        \<or> r = discover_request token (discoveryDate (page m))
        \<or> r = fetch_court_data_request token (discoveryDate (page m)) (selectedCourts (page m))"
      unfolding snd_step by (rule every_request_known)
  }
  {
    assume "r \<in> set (snd (step token ev m)) \<and> url_path (request.url r) = stop_url"
    then have "r = stop_request token \<and> ev = Click StopButton \<and> triggering (page m)"
      unfolding snd_step by (intro stop_path_only_by_stop) simp_all
    then show "r = stop_request token" and "ev = Click StopButton" and "triggering (page m)"
      by simp_all
  }
  {
    assume "r \<in> set (snd (step token ev m)) \<and> request.url r = stop_url"
    then have "r = stop_request token \<and> ev = Click StopButton \<and> triggering (page m)"
      unfolding snd_step by (intro stop_url_only_by_stop) simp_all
    then show "r = stop_request token" and "ev = Click StopButton" and "triggering (page m)"
      by simp_all
  }
  assume "rendered s StopButton"
  then show "triggering s"
    by (simp add: rendered_def)
qed

theorem stop_request_set_only_witness:
  "stop_request (Some ''t'') \<in> set (snd (step (Some ''t'') (Click StopButton) scraper_running))
   \<and> url_path (request.url (stop_request (Some ''t''))) = stop_url
   \<and> request.url (stop_request (Some ''t'')) = stop_url
   \<and> rendered (page scraper_running) StopButton
   \<and> triggering (page scraper_running)"
  using stop_request_set_only
    [of "Some ''t''" "page scraper_running" "stop_request (Some ''t'')" "Click StopButton"
        scraper_running]
  by code_simp

subsection \<open>A discovery without a date\<close>

text \<open>
  C6: with an empty discovery date \<^verbatim>\<open>discoverCourts\<close> only sets the error message: it
  sends no request and leaves the \<^verbatim>\<open>discovering\<close> flag as it is. In that state the
  Discover Courts button is disabled, so a click on it does nothing at all.
\<close>

theorem discoverCourts_missing_date:
  assumes "discoveryDate (page m) = []"
  shows "discoverCourts token (page m) =
           ((page m)\<lparr>error := ''Please select a date for court discovery''\<rparr>, [])
       \<and> discovering (fst (discoverCourts token (page m))) = discovering (page m)
       \<and> disabled (page m) DiscoverCourtsButton
       \<and> step token (Click DiscoverCourtsButton) m = (m, [])"
  using assms by (simp add: discoverCourts_def disabled_def step_ignored_click)

theorem discoverCourts_missing_date_witness:
  "discoveryDate (page \<lparr>page = initial, intervalId = None\<rparr>) = []
   \<and> snd (discoverCourts (Some ''t'') initial) = []
   \<and> error (fst (discoverCourts (Some ''t'') initial)) = ''Please select a date for court discovery''
   \<and> discovering (fst (discoverCourts (Some ''t'') initial)) = False
   \<and> disabled initial DiscoverCourtsButton"
  using discoverCourts_missing_date [of "\<lparr>page = initial, intervalId = None\<rparr>" "Some ''t''"]
  by (simp add: initial_def)

subsection \<open>The selection of courts\<close>

text \<open>
  C8: an ok discovery response with a non-empty court list leaves all its courts
  selected, in the order of the response; whenever \<^verbatim>\<open>discoverCourts\<close> sends its request
  it has emptied the discovered and the selected list; select-all, deselect-all and the
  toggle of a discovered court keep the selection within the discovered courts, and so
  does a click on any control.
\<close>

theorem discovery_selects_all_and_selection_stays_within:
  "(courts data \<noteq> [] \<longrightarrow>
      discoveredCourts (discoverCourts_resume (Ok data) s) = courts data
      \<and> selectedCourts (discoverCourts_resume (Ok data) s) = map court_number (courts data))
   \<and> (snd (discoverCourts token s) \<noteq> [] \<longrightarrow>
      discoveredCourts (fst (discoverCourts token s)) = []
      \<and> selectedCourts (fst (discoverCourts token s)) = [])
   \<and> (selection_within_discovered s \<longrightarrow>
      selection_within_discovered (selectAllCourts s)
      \<and> selection_within_discovered (deselectAllCourts s)
      \<and> (List.member (map court_number (discoveredCourts s)) c \<longrightarrow>
           selection_within_discovered (toggleCourtSelection c s)))
   \<and> (selection_within_discovered (page m) \<longrightarrow>
      selection_within_discovered (page (fst (step token (Click ctl) m))))"
proof (intro conjI impI)
  assume "courts data \<noteq> []"
  then show "discoveredCourts (discoverCourts_resume (Ok data) s) = courts data"
    and "selectedCourts (discoverCourts_resume (Ok data) s) = map court_number (courts data)"
    by (simp_all add: discoverCourts_resume_def)
next
  assume "snd (discoverCourts token s) \<noteq> []"
  then show "discoveredCourts (fst (discoverCourts token s)) = []"
    and "selectedCourts (fst (discoverCourts token s)) = []"
    by (simp_all add: discoverCourts_def split: if_splits)
next
  assume inv: "selection_within_discovered s"
  from selection_operations_keep_within [OF inv, of c]
  show "selection_within_discovered (selectAllCourts s)"
    and "selection_within_discovered (deselectAllCourts s)"
    by simp_all
  assume "List.member (map court_number (discoveredCourts s)) c"
  with selection_operations_keep_within [OF inv, of c]
  show "selection_within_discovered (toggleCourtSelection c s)"
    by simp
next
  assume "selection_within_discovered (page m)"
  then show "selection_within_discovered (page (fst (step token (Click ctl) m)))"
    by (rule step_click_keeps_selection_within)
qed

theorem discovery_selects_all_and_selection_stays_within_witness:
  "courts two_courts \<noteq> []
   \<and> selectedCourts (discoverCourts_resume (Ok two_courts) (page discovered)) = [''3'', ''17'']
   \<and> snd (discoverCourts (Some ''t'') (page discovered)) \<noteq> []
   \<and> selectedCourts (fst (discoverCourts (Some ''t'') (page discovered))) = []
   \<and> discoveredCourts (fst (discoverCourts (Some ''t'') (page discovered))) = []
   \<and> selection_within_discovered (page discovered)
   \<and> List.member (map court_number (discoveredCourts (page discovered))) ''17''
   \<and> selectedCourts (toggleCourtSelection ''17'' (page discovered)) = [''3'']
   \<and> selection_within_discovered (toggleCourtSelection ''17'' (page discovered))
   \<and> selection_within_discovered (page (fst (step (Some ''t'') (Click HeaderCheckbox) discovered)))"
  using discovery_selects_all_and_selection_stays_within
    [of two_courts "page discovered" "Some ''t''" "''17''" discovered HeaderCheckbox]
  by code_simp

subsection \<open>Toggling a court\<close>

text \<open>
  C9: on a selection without duplicates, \<^verbatim>\<open>toggleCourtSelection\<close> removes the court
  number when it is selected and appends it when it is not; the result has no
  duplicates; toggling twice gives back the same set of selected courts.
\<close>

theorem toggleCourtSelection_involution:
  assumes "distinct (selectedCourts s)"
  shows "(if List.member (selectedCourts s) c
          then selectedCourts (toggleCourtSelection c s) = filter (\<lambda>x. x \<noteq> c) (selectedCourts s)
             \<and> \<not> List.member (selectedCourts (toggleCourtSelection c s)) c
          else selectedCourts (toggleCourtSelection c s) = selectedCourts s @ [c])
       \<and> distinct (selectedCourts (toggleCourtSelection c s))
       \<and> set (selectedCourts (toggleCourtSelection c (toggleCourtSelection c s)))
           = set (selectedCourts s)"
  using assms by (auto simp: toggleCourtSelection_def toggle_def)

theorem toggleCourtSelection_involution_witness:
  "distinct (selectedCourts (initial\<lparr>selectedCourts := [''3'', ''17'']\<rparr>))
   \<and> selectedCourts (toggleCourtSelection ''17'' (initial\<lparr>selectedCourts := [''3'', ''17'']\<rparr>)) = [''3'']
   \<and> selectedCourts (toggleCourtSelection ''40'' (initial\<lparr>selectedCourts := [''3'', ''17'']\<rparr>))
       = [''3'', ''17'', ''40'']
   \<and> set (selectedCourts (toggleCourtSelection ''17''
            (toggleCourtSelection ''17'' (initial\<lparr>selectedCourts := [''3'', ''17'']\<rparr>))))
       = {''3'', ''17''}"
  using toggleCourtSelection_involution [of "initial\<lparr>selectedCourts := [''3'', ''17'']\<rparr>" "''17''"]
        toggleCourtSelection_involution [of "initial\<lparr>selectedCourts := [''3'', ''17'']\<rparr>" "''40''"]
  by (simp add: initial_def)

subsection \<open>The court range of a discovery\<close>

text \<open>
  C2: for every date chosen in the date input, \<^verbatim>\<open>discoverCourts\<close> sends one GET to the
  discover-courts endpoint whose parameters are exactly \<^verbatim>\<open>target_date\<close>, that date,
  \<^verbatim>\<open>court_start=1\<close> and \<^verbatim>\<open>court_end=60\<close>; a discovery run over the range the request
  asks for checks exactly 60 courts.
\<close>

theorem discovery_request_covers_sixty_courts:
  assumes "date_input_value (discoveryDate s)"
  shows "snd (discoverCourts token s) = [discover_request token (discoveryDate s)]
       \<and> req_method (discover_request token (discoveryDate s)) = GET
       \<and> headers (discover_request token (discoveryDate s)) = [(''Authorization'', bearer token)]
       \<and> body (discover_request token (discoveryDate s)) = NoBody
       \<and> url_path (request.url (discover_request token (discoveryDate s)))
           = ''/api/proxy/api/scraper/discover-courts''
       \<and> query_params (request.url (discover_request token (discoveryDate s)))
           = [(''target_date'', discoveryDate s), (''court_start'', ''1''), (''court_end'', ''60'')]
       \<and> requested_range (discover_request token (discoveryDate s)) = Some (1, 60)
       \<and> map_option
            (\<lambda>(a, b). total_courts_checked
                         (discovery_run filter_court summarise (discoveryDate s) a b))
            (requested_range (discover_request token (discoveryDate s))) = Some 60"
proof -
  let ?r = "discover_request token (discoveryDate s)"
  have "discoveryDate s \<noteq> []"
    using assms by (simp add: date_input_value_def)
  then have sent: "snd (discoverCourts token s) = [?r]"
    by (simp add: discoverCourts_def)
  have shape: "req_method ?r = GET" "headers ?r = [(''Authorization'', bearer token)]"
    "body ?r = NoBody"
    by (simp_all add: discover_request_def)
  have path: "url_path (request.url ?r) = ''/api/proxy/api/scraper/discover-courts''"
    by (simp add: discover_request_def url_path_discover_url)
  have params: "query_params (request.url ?r)
           = [(''target_date'', discoveryDate s), (''court_start'', ''1''), (''court_end'', ''60'')]"
    using query_params_discover_url [OF assms] by (simp add: discover_request_def)
  have range: "requested_range ?r = Some (1, 60)"
    by (rule requested_range_discover [OF assms])
  have total: "map_option
            (\<lambda>(a, b). total_courts_checked
                         (discovery_run filter_court summarise (discoveryDate s) a b))
            (requested_range ?r) = Some 60"
    by (simp add: range discovery_run_total)
  show ?thesis
    by (intro conjI) (fact sent shape path params range total)+
qed

theorem discovery_request_covers_sixty_courts_witness:
  "date_input_value (discoveryDate (page scraper_running))
   \<and> snd (discoverCourts (Some ''t'') (page scraper_running))
       = [discover_request (Some ''t'') ''2025-01-15'']
   \<and> query_params (request.url (discover_request (Some ''t'') ''2025-01-15''))
       = [(''target_date'', ''2025-01-15''), (''court_start'', ''1''), (''court_end'', ''60'')]
   \<and> total_courts_checked (discovery_run three_courts_document named_summary ''2025-01-15'' 1 60) = 60
   \<and> courts_with_data (discovery_run three_courts_document named_summary ''2025-01-15'' 1 60) = 3
   \<and> map court_number (courts (discovery_run three_courts_document named_summary ''2025-01-15'' 1 60))
       = [''3'', ''17'', ''40'']"
  using discovery_request_covers_sixty_courts
    [of "page scraper_running" "Some ''t''" three_courts_document named_summary]
  by code_simp

subsection \<open>The live progress log\<close>

text \<open>
  C4, as the code has it. The interval is held exactly while some run is in progress, in
  every state the dashboard reaches. A click that starts a run empties the live log and
  sets the interval of 2000 ms; each firing of the interval requests the progress
  snapshot; the logs of an ok reply that has them replace the live log; when an event
  leaves no run in progress, the interval is cleared and the live log is what it was,
  unless the event is the reply to a progress request.
\<close>

theorem live_log_lifecycle:
  assumes "interval_matches m"
  shows "interval_matches (fst (run token evs (fst (mount token))))
       \<and> interval_matches (fst (step token ev m))
       \<and> (rendered (page m) c \<and> \<not> disabled (page m) c
            \<and> List.member [RunScraperNow, TriggerManually, DiscoverCourtsButton, FetchSelectedButton] c
          \<longrightarrow> liveLogs (page (fst (step token (Click c) m))) = []
              \<and> intervalId (fst (step token (Click c) m)) = Some 2000)
       \<and> step token IntervalFires m
           = (m, if run_in_progress (page m) then [progress_request token] else [])
       \<and> liveLogs (page (fst (step token
            (ProgressReply (Ok \<lparr>ProgressSnapshot.logs = Some ls\<rparr>)) m))) = ls
       \<and> (\<not> run_in_progress (page (fst (step token ev m))) \<and> \<not> is_ProgressReply ev
          \<longrightarrow> liveLogs (page (fst (step token ev m))) = liveLogs (page m)
              \<and> intervalId (fst (step token ev m)) = None)"
proof (intro conjI impI)
  show "interval_matches (fst (run token evs (fst (mount token))))"
    by (rule run_interval_matches [OF mount_interval_matches])
  show after: "interval_matches (fst (step token ev m))"
    by (rule step_interval_matches [OF assms])
  show "step token IntervalFires m
          = (m, if run_in_progress (page m) then [progress_request token] else [])"
    by (rule step_interval_fires [OF assms])
  show "liveLogs (page (fst (step token
          (ProgressReply (Ok \<lparr>ProgressSnapshot.logs = Some ls\<rparr>)) m))) = ls"
    by (rule step_progress_reply)
  {
    assume start: "rendered (page m) c \<and> \<not> disabled (page m) c
      \<and> List.member [RunScraperNow, TriggerManually, DiscoverCourtsButton, FetchSelectedButton] c"
    then have "liveLogs (page (fst (step token (Click c) m))) = []
        \<and> intervalId (fst (step token (Click c) m)) = Some 2000"
      by (intro step_start_resets) simp_all
    then show "liveLogs (page (fst (step token (Click c) m))) = []"
      and "intervalId (fst (step token (Click c) m)) = Some 2000"
      by simp_all
  }
  {
    assume idle: "\<not> run_in_progress (page (fst (step token ev m))) \<and> \<not> is_ProgressReply ev"
    then show "liveLogs (page (fst (step token ev m))) = liveLogs (page m)"
      by (intro step_idle_liveLogs) simp_all
    from idle after show "intervalId (fst (step token ev m)) = None"
      by (simp add: interval_matches_def)
  }
qed

theorem live_log_lifecycle_witness:
  "interval_matches idle
   \<and> rendered (page idle) RunScraperNow \<and> \<not> disabled (page idle) RunScraperNow
   \<and> List.member [RunScraperNow, TriggerManually, DiscoverCourtsButton, FetchSelectedButton] RunScraperNow
   \<and> intervalId (fst (step (Some ''t'') (Click RunScraperNow) idle)) = Some 2000
   \<and> interval_matches scraper_polled
   \<and> liveLogs (page scraper_polled) = [''Processing court 1'']
   \<and> \<not> run_in_progress (page (fst (step (Some ''t'')
           (TriggerReply (NotOk \<lparr>TriggerFailure.message = None\<rparr>)) scraper_polled)))
   \<and> \<not> is_ProgressReply (TriggerReply (NotOk \<lparr>TriggerFailure.message = None\<rparr>))
   \<and> liveLogs (page (fst (step (Some ''t'')
           (TriggerReply (NotOk \<lparr>TriggerFailure.message = None\<rparr>)) scraper_polled)))
       = [''Processing court 1'']
   \<and> intervalId (fst (step (Some ''t'')
           (TriggerReply (NotOk \<lparr>TriggerFailure.message = None\<rparr>)) scraper_polled)) = None"
  using live_log_lifecycle
      [of idle "Some ''t''" "[]" "ChangeTargetDate ''2025-01-15''" RunScraperNow "[]"]
    live_log_lifecycle
      [of scraper_polled "Some ''t''" "[]"
          "TriggerReply (NotOk \<lparr>TriggerFailure.message = None\<rparr>)" RunScraperNow "[]"]
  by code_simp

text \<open>
  C4 as stated fails: the scraper run ends while a discovery is in progress, and the
  live log, which held a line, is emptied and the interval is still set.
\<close>

theorem live_log_emptied_when_scraper_ends_during_discovery:
  "triggering (page both_running)
   \<and> liveLogs (page both_running) = [''Processing court 1'']
   \<and> scraper_ended
       = fst (step (Some ''t'') (TriggerReply (NotOk \<lparr>TriggerFailure.message = None\<rparr>)) both_running)
   \<and> \<not> triggering (page scraper_ended)
   \<and> liveLogs (page scraper_ended) = []
   \<and> intervalId scraper_ended = Some 2000"
  by code_simp

subsection \<open>The data shapes\<close>

text \<open>
  C7: the status snapshot, the run-log row, the discovery response and its courts have
  exactly the fields of the spec's records: mapping each field to the field of the same
  name is a bijection between the front end's record and the spec's, and each record of
  the front end is given by the values of the fields named.
\<close>

theorem data_shapes_match_spec:
  "ScraperLog_of (RunLog_of l) = l \<and> RunLog_of (ScraperLog_of r) = r
   \<and> ScraperStatus_of (RunStatusSnapshot_of t) = t \<and> RunStatusSnapshot_of (ScraperStatus_of u) = u
   \<and> Court_of (CourtSummary_of c) = c \<and> CourtSummary_of (Court_of k) = k
   \<and> CourtDiscoveryResponse_of (DiscoverSummary_of d) = d
   \<and> DiscoverSummary_of (CourtDiscoveryResponse_of e) = e
   \<and> l = \<lparr>ScraperLog.id = ScraperLog.id l, ScraperLog.status = ScraperLog.status l,
           ScraperLog.records_extracted = ScraperLog.records_extracted l,
           ScraperLog.error_message = ScraperLog.error_message l,
           ScraperLog.run_date = ScraperLog.run_date l,
           ScraperLog.created_at = ScraperLog.created_at l\<rparr>
   \<and> t = \<lparr>ScraperStatus.status = ScraperStatus.status t,
           ScraperStatus.last_run = ScraperStatus.last_run t,
           ScraperStatus.last_status = ScraperStatus.last_status t,
           ScraperStatus.total_records = ScraperStatus.total_records t,
           ScraperStatus.last_extraction_count = ScraperStatus.last_extraction_count t\<rparr>
   \<and> c = \<lparr>Court.court_number = Court.court_number c, Court.court_name = Court.court_name c,
           Court.judge = Court.judge c, Court.url = Court.url c,
           Court.has_data = Court.has_data c\<rparr>
   \<and> d = \<lparr>CourtDiscoveryResponse.date = CourtDiscoveryResponse.date d,
           CourtDiscoveryResponse.total_courts_checked = CourtDiscoveryResponse.total_courts_checked d,
           CourtDiscoveryResponse.courts_with_data = CourtDiscoveryResponse.courts_with_data d,
           CourtDiscoveryResponse.courts = CourtDiscoveryResponse.courts d\<rparr>"
  by (simp add: ScraperLog_of_def RunLog_of_def ScraperStatus_of_def RunStatusSnapshot_of_def
        Court_roundtrip CourtDiscoveryResponse_of_def DiscoverSummary_of_def comp_def)

subsection \<open>The login\<close>

text \<open>
  C10: \<^verbatim>\<open>handleLogin\<close> sets a timer of 10000 ms. The token is stored and the search page
  pushed only on an ok response whose body parses; a response that is not ok gives the
  error \<^verbatim>\<open>Invalid credentials\<close> and stores nothing; when the timer fires and aborts the
  request the error is the time-out message, which is not the credentials error, and
  nothing is stored; whatever the outcome, the loading flag is cleared and the timer is
  cancelled.
\<close>

theorem handleLogin_outcomes:
  "timeoutId (fst (handleLogin s)) = Some 10000
   \<and> LoginPage.loading (handleLogin_resume outcome s) = False
   \<and> timeoutId (handleLogin_resume outcome s) = None
   \<and> (case outcome of
        Response True (Inr data) \<Rightarrow>
          stored_token (handleLogin_resume outcome s)
            = Some (case access_token data of None \<Rightarrow> ''undefined'' | Some t \<Rightarrow> t)
          \<and> pushed (handleLogin_resume outcome s) = Some ''/search''
          \<and> LoginPage.error (handleLogin_resume outcome s) = LoginPage.error s
      | Response True (Inl err) \<Rightarrow>
          stored_token (handleLogin_resume outcome s) = stored_token s
          \<and> pushed (handleLogin_resume outcome s) = pushed s
      | Response False parsed \<Rightarrow>
          LoginPage.error (handleLogin_resume outcome s) = ''Invalid credentials''
          \<and> stored_token (handleLogin_resume outcome s) = stored_token s
          \<and> pushed (handleLogin_resume outcome s) = pushed s
      | TimerFired msg \<Rightarrow>
          LoginPage.error (handleLogin_resume outcome s)
            = ''Login timed out. Please ensure the backend API is running and try again.''
          \<and> LoginPage.error (handleLogin_resume outcome s) \<noteq> ''Invalid credentials''
          \<and> stored_token (handleLogin_resume outcome s) = stored_token s
          \<and> pushed (handleLogin_resume outcome s) = pushed s
      | Rejected err \<Rightarrow>
          stored_token (handleLogin_resume outcome s) = stored_token s
          \<and> pushed (handleLogin_resume outcome s) = pushed s)"
  by (simp add: handleLogin_def handleLogin_resume_def handleLogin_finally_clears
        handleLogin_catch_keeps handleLogin_catch_def abort_error_def message_or_def
        split: login_outcome.splits sum.splits bool.splits)

end
